theory Spec2Isabelle
  imports Complex_Main
begin

section \<open>The AQI engine and the fetch paths of polclisat8.py\<close>

text \<open>
  The module computes an Air Quality Index from pollutant concentrations
  (\<open>sub_index\<close>, \<open>aqi_color\<close>, the composite in \<open>get_air_quality\<close>), validates
  coordinates (\<open>is_within_india\<close>) and wraps four data paths around external
  libraries (requests, openmeteo_requests, folium, pandas).

  Numbers: Python's ints and floats are modelled as \<open>real\<close>; rounding of binary
  floating point is not part of the model. Exceptions are values: an operation that
  can raise returns \<open>py_exception + 'a\<close>, with \<open>Inl\<close> the exception raised.
\<close>

subsection \<open>Exceptions\<close>

text \<open>
  \<open>ZeroDivisionError\<close> is raised by the quotient in \<open>sub_index\<close>, \<open>IndexError\<close> by
  indexing an empty list, \<open>KeyError\<close> by a dict subscript. \<open>External msg\<close> is an
  exception (a subclass of \<open>Exception\<close>) raised by one of the libraries, \<open>msg\<close> its
  \<open>str()\<close>.
\<close>

datatype py_exception =
    ZeroDivisionError
  | IndexError
  | KeyError string
  | External string

fun str_exc :: "py_exception \<Rightarrow> string" where
  "str_exc ZeroDivisionError = ''division by zero''"
| "str_exc IndexError = ''list index out of range''"
| "str_exc (KeyError k) = [CHR 0x27] @ k @ [CHR 0x27]"
| "str_exc (External msg) = msg"

definition bind_exc :: "py_exception + 'a \<Rightarrow> ('a \<Rightarrow> py_exception + 'b) \<Rightarrow> py_exception + 'b" where
  "bind_exc r f = (case r of Inl e \<Rightarrow> Inl e | Inr v \<Rightarrow> f v)"

text \<open>\<open>xs[0]\<close> on a Python list.\<close>

definition index0 :: "'a list \<Rightarrow> py_exception + 'a" where
  "index0 xs = (case xs of [] \<Rightarrow> Inl IndexError | x # _ \<Rightarrow> Inr x)"

subsection \<open>Module-level tables\<close>

text \<open>
  A breakpoint band is the tuple \<open>(C_low, C_high, I_low, I_high)\<close>; an AQI band is
  \<open>(low, high, label, color)\<close>. The tables are module globals, read by name when a
  function runs; the record \<open>globals\<close> is the module's namespace and \<open>module_globals\<close>
  its content after the module has been loaded. No function of the module assigns to
  a global or mutates one.
\<close>

type_synonym band = "real \<times> real \<times> real \<times> real"

type_synonym aqi_band = "real \<times> real \<times> string \<times> string"

definition c_low :: "band \<Rightarrow> real" where
  "c_low b = fst b"

definition c_high :: "band \<Rightarrow> real" where
  "c_high b = fst (snd b)"

definition i_low :: "band \<Rightarrow> real" where
  "i_low b = fst (snd (snd b))"

definition i_high :: "band \<Rightarrow> real" where
  "i_high b = snd (snd (snd b))"

record globals =
  AQI_BREAKPOINTS :: "(string \<times> band list) list"
  AQI_BANDS :: "aqi_band list"
  TILE_OPTIONS :: "(string \<times> string \<times> string option) list"
  CUSTOM_TILES :: "(string \<times> string \<times> string option) list"

definition pm2_5_breakpoints :: "band list" where
  "pm2_5_breakpoints =
     [(0, 30, 0, 50), (30, 60, 51, 100), (60, 90, 101, 200),
      (90, 120, 201, 300), (120, 250, 301, 400), (250, 350, 401, 500)]"

definition pm10_breakpoints :: "band list" where
  "pm10_breakpoints =
     [(0, 50, 0, 50), (50, 100, 51, 100), (100, 250, 101, 200),
      (250, 350, 201, 300), (350, 430, 301, 400), (430, 600, 401, 500)]"

definition carbon_monoxide_breakpoints :: "band list" where
  "carbon_monoxide_breakpoints =
     [(0, 1, 0, 50), (1, 2, 51, 100), (2, 10, 101, 200),
      (10, 17, 201, 300), (17, 34, 301, 400), (34, 50, 401, 500)]"

definition nitrogen_dioxide_breakpoints :: "band list" where
  "nitrogen_dioxide_breakpoints =
     [(0, 40, 0, 50), (40, 80, 51, 100), (80, 180, 101, 200),
      (180, 280, 201, 300), (280, 400, 301, 400), (400, 1000, 401, 500)]"

definition sulphur_dioxide_breakpoints :: "band list" where
  "sulphur_dioxide_breakpoints =
     [(0, 40, 0, 50), (40, 80, 51, 100), (80, 380, 101, 200),
      (380, 800, 201, 300), (800, 1600, 301, 400), (1600, 2000, 401, 500)]"

definition ozone_breakpoints :: "band list" where
  "ozone_breakpoints =
     [(0, 50, 0, 50), (50, 100, 51, 100), (100, 168, 101, 200),
      (168, 208, 201, 300), (208, 748, 301, 400), (748, 1000, 401, 500)]"

definition module_globals :: globals where
  "module_globals =
     \<lparr> AQI_BREAKPOINTS =
         [(''pm2_5'', pm2_5_breakpoints),
          (''pm10'', pm10_breakpoints),
          (''carbon_monoxide'', carbon_monoxide_breakpoints),
          (''nitrogen_dioxide'', nitrogen_dioxide_breakpoints),
          (''sulphur_dioxide'', sulphur_dioxide_breakpoints),
          (''ozone'', ozone_breakpoints)],
       AQI_BANDS =
         [(0, 50, ''Good'', ''#009966''),
          (51, 100, ''Satisfactory'', ''#ffde33''),
          (101, 200, ''Moderate'', ''#ff9933''),
          (201, 300, ''Poor'', ''#cc0033''),
          (301, 400, ''Very Poor'', ''#660099''),
          (401, 500, ''Severe'', ''#7e0023'')],
       TILE_OPTIONS =
         [(''OpenStreetMap'', ''OpenStreetMap'', None),
          (''CartoDB positron'', ''CartoDB positron'', None)],
       CUSTOM_TILES = [] \<rparr>"

text \<open>\<open>d[k]\<close> on a dict written as a literal: the association list in source order.\<close>

definition subscript :: "(string \<times> 'v) list \<Rightarrow> string \<Rightarrow> py_exception + 'v" where
  "subscript d k = (case map_of d k of None \<Rightarrow> Inl (KeyError k) | Some v \<Rightarrow> Inr v)"

subsection \<open>Helper functions\<close>

text \<open>
  \<open>sub_index\<close>, lines 56 to 62. \<open>sub_index_loop\<close> is the \<open>for\<close> loop: \<open>Some r\<close> when the
  loop returns (or raises) at a band, \<open>None\<close> when it falls through. The quotient
  \<open>(I_high - I_low)/(C_high - C_low)\<close> raises ZeroDivisionError on a zero divisor;
  \<open>breakpoints[0]\<close> raises IndexError on an empty list (and then \<open>breakpoints[-1]\<close> is
  never reached).
\<close>

definition in_band :: "real \<Rightarrow> band \<Rightarrow> bool" where
  "in_band C b = (c_low b \<le> C \<and> C \<le> c_high b)"

fun sub_index_loop :: "real \<Rightarrow> band list \<Rightarrow> (py_exception + real) option" where
  "sub_index_loop C [] = None"
| "sub_index_loop C ((C_low, C_high, I_low, I_high) # rest) =
     (if C_low \<le> C \<and> C \<le> C_high then
        (if C_high - C_low = 0 then Some (Inl ZeroDivisionError)
         else Some (Inr (((I_high - I_low) / (C_high - C_low)) * (C - C_low) + I_low)))
      else sub_index_loop C rest)"

definition sub_index :: "real \<Rightarrow> band list \<Rightarrow> py_exception + real" where
  "sub_index C breakpoints =
     (case sub_index_loop C breakpoints of
        Some r \<Rightarrow> r
      | None \<Rightarrow>
          (case breakpoints of
             [] \<Rightarrow> Inl IndexError
           | first # _ \<Rightarrow>
               if C < c_low first then Inr (i_low first)
               else Inr (i_high (last breakpoints))))"

text \<open>\<open>aqi_color\<close>, lines 64 to 68; the result is the pair \<open>(color, label)\<close>.\<close>

fun aqi_color_loop :: "real \<Rightarrow> aqi_band list \<Rightarrow> string \<times> string" where
  "aqi_color_loop aqi [] = (''#000000'', ''Unknown'')"
| "aqi_color_loop aqi ((low, high, label, color) # rest) =
     (if low \<le> aqi \<and> aqi \<le> high then (color, label) else aqi_color_loop aqi rest)"

definition aqi_color :: "globals \<Rightarrow> real \<Rightarrow> string \<times> string" where
  "aqi_color g aqi = aqi_color_loop aqi (AQI_BANDS g)"

text \<open>\<open>is_within_india\<close>, lines 70 and 71.\<close>

definition is_within_india :: "real \<Rightarrow> real \<Rightarrow> bool" where
  "is_within_india lat lon = ((6.0 \<le> lat \<and> lat \<le> 36.0) \<and> (68.0 \<le> lon \<and> lon \<le> 98.0))"

subsection \<open>The composite AQI\<close>

text \<open>
  Lines 229 to 240 of \<open>get_air_quality\<close>: the six readings are taken from the dict
  \<open>c\<close> with default 0 (\<open>c.get(k, 0)\<close>), carbon monoxide is divided by 1000.0, each
  reading goes through \<open>sub_index\<close> with the table \<open>AQI_BREAKPOINTS[k]\<close>, and the AQI
  is \<open>max\<close> of the six. The readings of the feed are numbers.
\<close>

definition dict_get :: "(string \<rightharpoonup> real) \<Rightarrow> string \<Rightarrow> real \<Rightarrow> real" where
  "dict_get c k d = (case c k of None \<Rightarrow> d | Some v \<Rightarrow> v)"

definition pollutant_index :: "globals \<Rightarrow> real \<Rightarrow> string \<Rightarrow> py_exception + real" where
  "pollutant_index g C k = bind_exc (subscript (AQI_BREAKPOINTS g) k) (sub_index C)"

definition composite_aqi :: "globals \<Rightarrow> (string \<rightharpoonup> real) \<Rightarrow> py_exception + real" where
  "composite_aqi g c =
     (let pm25 = dict_get c ''pm2_5'' 0;
          pm10 = dict_get c ''pm10'' 0;
          co = dict_get c ''carbon_monoxide'' 0 / 1000.0;
          no2 = dict_get c ''nitrogen_dioxide'' 0;
          so2 = dict_get c ''sulphur_dioxide'' 0;
          o3 = dict_get c ''ozone'' 0
      in bind_exc (pollutant_index g pm25 ''pm2_5'') (\<lambda>idx_pm25.
         bind_exc (pollutant_index g pm10 ''pm10'') (\<lambda>idx_pm10.
         bind_exc (pollutant_index g co ''carbon_monoxide'') (\<lambda>idx_co.
         bind_exc (pollutant_index g no2 ''nitrogen_dioxide'') (\<lambda>idx_no2.
         bind_exc (pollutant_index g so2 ''sulphur_dioxide'') (\<lambda>idx_so2.
         bind_exc (pollutant_index g o3 ''ozone'') (\<lambda>idx_o3.
         Inr (max idx_pm25 (max idx_pm10 (max idx_co (max idx_no2 (max idx_so2 idx_o3))))))))))))"

subsection \<open>The four data paths\<close>

text \<open>
  The libraries are collaborators: the outcome of each call into one is a parameter
  of the model, either the exception it raised or the value it returned, and the
  HTML a path assembles from a successful response is a parameter too. What the model
  keeps of each path is its control flow: which calls it makes in which order, and
  where an exception is handled.
\<close>

text \<open>
  \<open>get_climate_data\<close>, lines 101 to 146: the whole body after the request parameters
  is inside \<open>try\<close>, and \<open>except Exception as e\<close> returns the red panel with \<open>str(e)\<close>.
  \<open>weather_api\<close> is the outcome of \<open>climate_client.weather_api(...)\<close> for the request,
  \<open>render\<close> the table built from \<open>responses[0]\<close>.
\<close>

definition climate_error_panel :: "py_exception \<Rightarrow> string" where
  "climate_error_panel e =
     ''<div style='color:red;padding:.5em;'>Climate data unavailable: '' @ str_exc e @ ''</div>''"

definition get_climate_data ::
  "(real \<times> real \<times> string \<Rightarrow> py_exception + 'resp list) \<Rightarrow>
   ('resp \<Rightarrow> string \<Rightarrow> string \<Rightarrow> py_exception + string) \<Rightarrow>
   real \<Rightarrow> real \<Rightarrow> string \<Rightarrow> string \<Rightarrow> py_exception + string" where
  "get_climate_data weather_api render lat lon location_name date_str =
     (case bind_exc (weather_api (lat, lon, date_str)) (\<lambda>responses.
           bind_exc (index0 responses) (\<lambda>resp.
           render resp location_name date_str)) of
        Inr html \<Rightarrow> Inr html
      | Inl e \<Rightarrow> Inr (climate_error_panel e))"

text \<open>
  \<open>get_satellite_radiation\<close>, lines 151 to 207: \<open>strptime\<close> parses the date, the
  client fetches, the panel is built from \<open>responses[0]\<close>; there is no \<open>try\<close>.
\<close>

definition get_satellite_radiation ::
  "(string \<Rightarrow> py_exception + 'date) \<Rightarrow>
   (real \<times> real \<times> 'date \<Rightarrow> py_exception + 'resp list) \<Rightarrow>
   ('resp \<Rightarrow> string \<Rightarrow> string \<Rightarrow> py_exception + string) \<Rightarrow>
   real \<Rightarrow> real \<Rightarrow> string \<Rightarrow> string \<Rightarrow> py_exception + string" where
  "get_satellite_radiation strptime weather_api render lat lon location_name date_str =
     bind_exc (strptime date_str) (\<lambda>date.
     bind_exc (weather_api (lat, lon, date)) (\<lambda>responses.
     bind_exc (index0 responses) (\<lambda>resp.
     render resp location_name date_str)))"

text \<open>
  \<open>get_air_quality\<close>, lines 212 to 286: \<open>requests.get\<close>, then \<open>raise_for_status()\<close>,
  then \<open>resp.json().get("current", {})\<close>, the composite AQI, its colour and label, and
  the panel; there is no \<open>try\<close>. A response carries the exception \<open>raise_for_status\<close>
  raises, if any, and the outcome of \<open>json()\<close>.
\<close>

record http_response =
  status_error :: "py_exception option"
  json :: "py_exception + (string \<rightharpoonup> (string \<rightharpoonup> real))"

definition get_air_quality ::
  "globals \<Rightarrow> (real \<times> real \<Rightarrow> py_exception + http_response) \<Rightarrow>
   ((string \<rightharpoonup> real) \<Rightarrow> real \<Rightarrow> string \<times> string \<Rightarrow> string \<Rightarrow> string \<Rightarrow> string) \<Rightarrow>
   real \<Rightarrow> real \<Rightarrow> string \<Rightarrow> string \<Rightarrow> py_exception + string" where
  "get_air_quality g requests_get render lat lon location_name date_str =
     bind_exc (requests_get (lat, lon)) (\<lambda>resp.
       case status_error resp of
         Some e \<Rightarrow> Inl e
       | None \<Rightarrow>
           bind_exc (json resp) (\<lambda>body.
             let c = (case body ''current'' of None \<Rightarrow> Map.empty | Some cur \<Rightarrow> cur)
             in bind_exc (composite_aqi g c) (\<lambda>aqi.
                  Inr (render c aqi (aqi_color g aqi) location_name date_str))))"

text \<open>
  \<open>create_india_map\<close>, lines 308 to 350: the tile source is looked up in
  \<open>TILE_OPTIONS\<close>, then in \<open>CUSTOM_TILES\<close>, else it is OpenStreetMap; a marker is placed
  when both coordinates are given, red at the national centroid when the point is
  outside the service region and blue at the point otherwise. \<open>folium\<close> is the
  outcome of building and rendering the map. The whole body is inside \<open>try\<close>.
\<close>

datatype marker = Red_at_centroid | Blue_at real real

record map_request =
  tiles :: string
  attr :: "string option"
  zoom_start :: real
  marker :: "marker option"

definition map_error_panel :: "py_exception \<Rightarrow> string" where
  "map_error_panel e =
     ''<div style='color:red;padding:1em;'>Error generating map: '' @ str_exc e @ ''</div>''"

definition select_tiles :: "globals \<Rightarrow> string \<Rightarrow> string \<times> string option" where
  "select_tiles g tiles_label =
     (case find (\<lambda>t. fst t = tiles_label) (TILE_OPTIONS g) of
        Some tile_info \<Rightarrow> (fst (snd tile_info), snd (snd tile_info))
      | None \<Rightarrow>
          (case map_of (CUSTOM_TILES g) tiles_label of
             Some custom \<Rightarrow> custom
           | None \<Rightarrow> (''OpenStreetMap'', None)))"

definition create_india_map ::
  "globals \<Rightarrow> (map_request \<Rightarrow> py_exception + string) \<Rightarrow>
   real option \<Rightarrow> real option \<Rightarrow> real \<Rightarrow> string \<Rightarrow> py_exception + string" where
  "create_india_map g folium lat lon zoom tiles_label =
     (let (tile, attribution) = select_tiles g tiles_label;
          mk = (case (lat, lon) of
                  (Some lat_f, Some lon_f) \<Rightarrow>
                    if \<not> is_within_india lat_f lon_f then Some Red_at_centroid
                    else Some (Blue_at lat_f lon_f)
                | _ \<Rightarrow> None);
          req = \<lparr> tiles = tile,
                  attr = (if attribution = None \<or> attribution = Some [] then None else attribution),
                  zoom_start = zoom, marker = mk \<rparr>
      in case folium req of
           Inr html \<Rightarrow>
             Inr (''<div style='border-radius:18px;box-shadow:0 4px 18px #8882;''
                  @ ''overflow:hidden;margin:1em 0;min-height:520px;max-width:100%;'>''
                  @ html @ ''</div>'')
         | Inl e \<Rightarrow> Inr (map_error_panel e))"

section \<open>The loop of \<open>sub_index\<close>\<close>

text \<open>
  The loop returns at the first band of the table, in table order, whose closed
  interval contains the concentration: \<open>find (in_band C)\<close> is that band.
\<close>

lemma sub_index_loop_find:
  "sub_index_loop C bps =
     (case find (in_band C) bps of
        None \<Rightarrow> None
      | Some b \<Rightarrow>
          Some (if c_high b - c_low b = 0 then Inl ZeroDivisionError
                else Inr (((i_high b - i_low b) / (c_high b - c_low b)) * (C - c_low b) + i_low b)))"
  by (induction C bps rule: sub_index_loop.induct)
     (simp_all add: in_band_def c_low_def c_high_def i_low_def i_high_def)

lemma find_None_no_band: "find (in_band C) bps = None \<longleftrightarrow> (\<forall>b\<in>set bps. \<not> in_band C b)"
  by (auto simp: find_None_iff)

lemma sub_index_no_band:
  assumes "bps \<noteq> []" and "\<forall>b\<in>set bps. \<not> in_band C b"
  shows "sub_index C bps = Inr (if C < c_low (hd bps) then i_low (hd bps) else i_high (last bps))"
proof -
  from assms(2) have "find (in_band C) bps = None"
    by (simp only: find_None_no_band)
  then have "sub_index_loop C bps = None"
    by (simp add: sub_index_loop_find)
  with assms(1) show ?thesis
    by (cases bps) (simp_all add: sub_index_def)
qed

lemma sub_index_at_band:
  assumes "find (in_band C) bps = Some (Cl, Ch, Il, Ih)" and "Cl < Ch"
  shows "sub_index C bps = Inr (((Ih - Il) / (Ch - Cl)) * (C - Cl) + Il)"
  using assms
  by (simp add: sub_index_def sub_index_loop_find c_low_def c_high_def i_low_def i_high_def)

lemma sub_index_point_band:
  assumes "find (in_band C) bps = Some (Cl, Cl, Il, Ih)"
  shows "sub_index C bps = Inl ZeroDivisionError"
  using assms
  by (simp add: sub_index_def sub_index_loop_find c_low_def c_high_def i_low_def i_high_def)

lemma find_append_skip:
  "\<forall>b\<in>set pre. \<not> P b \<Longrightarrow> find P (pre @ xs) = find P xs"
  by (induction pre) simp_all

section \<open>The loop of \<open>aqi_color\<close>\<close>

lemma aqi_color_loop_find:
  "aqi_color_loop aqi bands =
     (case find (\<lambda>(low, high, label, color). low \<le> aqi \<and> aqi \<le> high) bands of
        Some (low, high, label, color) \<Rightarrow> (color, label)
      | None \<Rightarrow> (''#000000'', ''Unknown''))"
  by (induction aqi bands rule: aqi_color_loop.induct) simp_all

lemma AQI_BANDS_module:
  "AQI_BANDS module_globals =
     [(0, 50, ''Good'', ''#009966''), (51, 100, ''Satisfactory'', ''#ffde33''),
      (101, 200, ''Moderate'', ''#ff9933''), (201, 300, ''Poor'', ''#cc0033''),
      (301, 400, ''Very Poor'', ''#660099''), (401, 500, ''Severe'', ''#7e0023'')]"
  by (simp add: module_globals_def)

lemma aqi_color_module_cases:
  "aqi_color module_globals v =
     (if 0 \<le> v \<and> v \<le> 50 then (''#009966'', ''Good'')
      else if 51 \<le> v \<and> v \<le> 100 then (''#ffde33'', ''Satisfactory'')
      else if 101 \<le> v \<and> v \<le> 200 then (''#ff9933'', ''Moderate'')
      else if 201 \<le> v \<and> v \<le> 300 then (''#cc0033'', ''Poor'')
      else if 301 \<le> v \<and> v \<le> 400 then (''#660099'', ''Very Poor'')
      else if 401 \<le> v \<and> v \<le> 500 then (''#7e0023'', ''Severe'')
      else (''#000000'', ''Unknown''))"
  by (simp add: aqi_color_def AQI_BANDS_module)

lemma aqi_color_sentinel:
  "aqi_color module_globals v = (''#000000'', ''Unknown'') \<longleftrightarrow>
     \<not> (0 \<le> v \<and> v \<le> 50 \<or> 51 \<le> v \<and> v \<le> 100 \<or> 101 \<le> v \<and> v \<le> 200
        \<or> 201 \<le> v \<and> v \<le> 300 \<or> 301 \<le> v \<and> v \<le> 400 \<or> 401 \<le> v \<and> v \<le> 500)"
  by (simp add: aqi_color_module_cases)

section \<open>The range of \<open>sub_index\<close>\<close>

text \<open>
  Inside a band with \<open>C_low < C_high\<close> and \<open>I_low \<le> I_high\<close> the interpolation stays
  between \<open>I_low\<close> and \<open>I_high\<close>; outside every band the result is an \<open>I_low\<close> or an
  \<open>I_high\<close> of the table. So the result always lies in the index range of some band.
\<close>

lemma interpolation_bounds:
  fixes C Cl Ch Il Ih :: real
  assumes "Cl \<le> C" "C \<le> Ch" "Cl < Ch" "Il \<le> Ih"
  shows "Il \<le> ((Ih - Il) / (Ch - Cl)) * (C - Cl) + Il"
    and "((Ih - Il) / (Ch - Cl)) * (C - Cl) + Il \<le> Ih"
proof -
  let ?k = "(Ih - Il) / (Ch - Cl)"
  from assms have k: "0 \<le> ?k"
    by simp
  from assms have "0 \<le> ?k * (C - Cl)"
    using k by (intro mult_nonneg_nonneg) simp_all
  then show "Il \<le> ?k * (C - Cl) + Il"
    by simp
  from assms have "?k * (C - Cl) \<le> ?k * (Ch - Cl)"
    using k by (intro mult_left_mono) simp_all
  also from assms have "?k * (Ch - Cl) = Ih - Il"
    by simp
  finally show "?k * (C - Cl) + Il \<le> Ih"
    by simp
qed

lemma sub_index_in_index_band:
  assumes ne: "bps \<noteq> []"
    and wf: "\<forall>b\<in>set bps. c_low b < c_high b \<and> i_low b \<le> i_high b"
  shows "\<exists>v. sub_index C bps = Inr v \<and> (\<exists>b\<in>set bps. i_low b \<le> v \<and> v \<le> i_high b)"
proof (cases "find (in_band C) bps")
  case None
  then have no: "\<forall>b\<in>set bps. \<not> in_band C b"
    by (simp only: find_None_no_band)
  from ne have hd_in: "hd bps \<in> set bps" and last_in: "last bps \<in> set bps"
    by simp_all
  show ?thesis
  proof (cases "C < c_low (hd bps)")
    case True
    with ne no have "sub_index C bps = Inr (i_low (hd bps))"
      by (simp add: sub_index_no_band)
    moreover from wf hd_in have "i_low (hd bps) \<le> i_high (hd bps)"
      by blast
    ultimately show ?thesis
      using hd_in by auto
  next
    case False
    with ne no have "sub_index C bps = Inr (i_high (last bps))"
      by (simp add: sub_index_no_band)
    moreover from wf last_in have "i_low (last bps) \<le> i_high (last bps)"
      by blast
    ultimately show ?thesis
      using last_in by auto
  qed
next
  case (Some b)
  obtain Cl Ch Il Ih where b: "b = (Cl, Ch, Il, Ih)"
    by (cases b) auto
  from Some have b_in: "b \<in> set bps" and inb: "in_band C b"
    by (auto simp: find_Some_iff)
  from wf b_in b have ok: "Cl < Ch" "Il \<le> Ih"
    by (auto simp: c_low_def c_high_def i_low_def i_high_def)
  from inb b have range: "Cl \<le> C" "C \<le> Ch"
    by (simp_all add: in_band_def c_low_def c_high_def)
  from Some b ok have "sub_index C bps = Inr (((Ih - Il) / (Ch - Cl)) * (C - Cl) + Il)"
    by (simp add: sub_index_at_band)
  moreover from interpolation_bounds [OF range ok] b
  have "i_low b \<le> ((Ih - Il) / (Ch - Cl)) * (C - Cl) + Il"
    and "((Ih - Il) / (Ch - Cl)) * (C - Cl) + Il \<le> i_high b"
    by (simp_all add: i_low_def i_high_def)
  ultimately show ?thesis
    using b_in by blast
qed

lemma module_tables:
  assumes "(k, t) \<in> set (AQI_BREAKPOINTS module_globals)"
  shows "t = pm2_5_breakpoints \<or> t = pm10_breakpoints \<or> t = carbon_monoxide_breakpoints
       \<or> t = nitrogen_dioxide_breakpoints \<or> t = sulphur_dioxide_breakpoints \<or> t = ozone_breakpoints"
  using assms by (auto simp: module_globals_def)

lemmas table_defs =
  pm2_5_breakpoints_def pm10_breakpoints_def carbon_monoxide_breakpoints_def
  nitrogen_dioxide_breakpoints_def sulphur_dioxide_breakpoints_def ozone_breakpoints_def

lemmas band_defs = c_low_def c_high_def i_low_def i_high_def

lemma module_table_index_bands:
  assumes "(k, t) \<in> set (AQI_BREAKPOINTS module_globals)"
  shows "t \<noteq> []"
    and "\<forall>b\<in>set t. c_low b < c_high b \<and> i_low b \<le> i_high b"
    and "\<forall>b\<in>set t. (i_low b, i_high b) \<in> {(0, 50), (51, 100), (101, 200), (201, 300), (301, 400), (401, 500)}"
  using module_tables [OF assms] by (auto simp: table_defs band_defs)

lemma module_sub_index_range:
  assumes "(k, t) \<in> set (AQI_BREAKPOINTS module_globals)"
  shows "\<exists>v. sub_index C t = Inr v \<and>
           (0 \<le> v \<and> v \<le> 50 \<or> 51 \<le> v \<and> v \<le> 100 \<or> 101 \<le> v \<and> v \<le> 200
            \<or> 201 \<le> v \<and> v \<le> 300 \<or> 301 \<le> v \<and> v \<le> 400 \<or> 401 \<le> v \<and> v \<le> 500)"
proof -
  from sub_index_in_index_band [OF module_table_index_bands(1,2) [OF assms], of C]
  obtain v b where v: "sub_index C t = Inr v" and b: "b \<in> set t" "i_low b \<le> v" "v \<le> i_high b"
    by blast
  from module_table_index_bands(3) [OF assms] b(1)
  have "(i_low b, i_high b) \<in> {(0, 50), (51, 100), (101, 200), (201, 300), (301, 400), (401, 500)}"
    by blast
  with b(2,3) have "0 \<le> v \<and> v \<le> 50 \<or> 51 \<le> v \<and> v \<le> 100 \<or> 101 \<le> v \<and> v \<le> 200
            \<or> 201 \<le> v \<and> v \<le> 300 \<or> 301 \<le> v \<and> v \<le> 400 \<or> 401 \<le> v \<and> v \<le> 500"
    by auto
  with v show ?thesis
    by blast
qed

lemma sub_index_pm2_5_45: "sub_index 45 pm2_5_breakpoints = Inr (151 / 2)"
  by (simp add: sub_index_def pm2_5_breakpoints_def)

lemma sub_index_ozone_2000: "sub_index 2000 ozone_breakpoints = Inr 500"
  by (simp add: sub_index_def ozone_breakpoints_def band_defs)

section \<open>The module's tables at work\<close>

text \<open>
  With the module's \<open>AQI_BREAKPOINTS\<close> every subscript finds its table and every
  \<open>sub_index\<close> returns, so the composite is the maximum of six numbers. The
  \<open>endpoints\<close> lemmas evaluate \<open>sub_index\<close> at the bounds and the midpoint of each of
  the six bands of a table.
\<close>

lemma module_pollutant_index:
  "pollutant_index module_globals C ''pm2_5'' = sub_index C pm2_5_breakpoints"
  "pollutant_index module_globals C ''pm10'' = sub_index C pm10_breakpoints"
  "pollutant_index module_globals C ''carbon_monoxide'' = sub_index C carbon_monoxide_breakpoints"
  "pollutant_index module_globals C ''nitrogen_dioxide'' = sub_index C nitrogen_dioxide_breakpoints"
  "pollutant_index module_globals C ''sulphur_dioxide'' = sub_index C sulphur_dioxide_breakpoints"
  "pollutant_index module_globals C ''ozone'' = sub_index C ozone_breakpoints"
  by (simp_all add: pollutant_index_def subscript_def bind_exc_def module_globals_def)

lemma module_sub_index_returns:
  assumes "(k, t) \<in> set (AQI_BREAKPOINTS module_globals)"
  shows "\<exists>v. sub_index C t = Inr v"
  using module_sub_index_range [OF assms, of C] by blast

lemma module_keys:
  "(''pm2_5'', pm2_5_breakpoints) \<in> set (AQI_BREAKPOINTS module_globals)"
  "(''pm10'', pm10_breakpoints) \<in> set (AQI_BREAKPOINTS module_globals)"
  "(''carbon_monoxide'', carbon_monoxide_breakpoints) \<in> set (AQI_BREAKPOINTS module_globals)"
  "(''nitrogen_dioxide'', nitrogen_dioxide_breakpoints) \<in> set (AQI_BREAKPOINTS module_globals)"
  "(''sulphur_dioxide'', sulphur_dioxide_breakpoints) \<in> set (AQI_BREAKPOINTS module_globals)"
  "(''ozone'', ozone_breakpoints) \<in> set (AQI_BREAKPOINTS module_globals)"
  by (simp_all add: module_globals_def)

lemma Max_six:
  fixes a :: real
  shows "Max {a, b, c, d, e, f} = max a (max b (max c (max d (max e f))))"
  by simp

lemma composite_aqi_module:
  "\<exists>i1 i2 i3 i4 i5 i6.
      sub_index (dict_get c ''pm2_5'' 0) pm2_5_breakpoints = Inr i1
    \<and> sub_index (dict_get c ''pm10'' 0) pm10_breakpoints = Inr i2
    \<and> sub_index (dict_get c ''carbon_monoxide'' 0 / 1000) carbon_monoxide_breakpoints = Inr i3
    \<and> sub_index (dict_get c ''nitrogen_dioxide'' 0) nitrogen_dioxide_breakpoints = Inr i4
    \<and> sub_index (dict_get c ''sulphur_dioxide'' 0) sulphur_dioxide_breakpoints = Inr i5
    \<and> sub_index (dict_get c ''ozone'' 0) ozone_breakpoints = Inr i6
    \<and> composite_aqi module_globals c = Inr (Max {i1, i2, i3, i4, i5, i6})"
proof -
  obtain i1 where i1: "sub_index (dict_get c ''pm2_5'' 0) pm2_5_breakpoints = Inr i1"
    using module_sub_index_returns [OF module_keys(1)] by blast
  obtain i2 where i2: "sub_index (dict_get c ''pm10'' 0) pm10_breakpoints = Inr i2"
    using module_sub_index_returns [OF module_keys(2)] by blast
  obtain i3 where i3: "sub_index (dict_get c ''carbon_monoxide'' 0 / 1000) carbon_monoxide_breakpoints = Inr i3"
    using module_sub_index_returns [OF module_keys(3)] by blast
  obtain i4 where i4: "sub_index (dict_get c ''nitrogen_dioxide'' 0) nitrogen_dioxide_breakpoints = Inr i4"
    using module_sub_index_returns [OF module_keys(4)] by blast
  obtain i5 where i5: "sub_index (dict_get c ''sulphur_dioxide'' 0) sulphur_dioxide_breakpoints = Inr i5"
    using module_sub_index_returns [OF module_keys(5)] by blast
  obtain i6 where i6: "sub_index (dict_get c ''ozone'' 0) ozone_breakpoints = Inr i6"
    using module_sub_index_returns [OF module_keys(6)] by blast
  have "composite_aqi module_globals c = Inr (max i1 (max i2 (max i3 (max i4 (max i5 i6)))))"
    by (simp add: composite_aqi_def module_pollutant_index i1 i2 i3 i4 i5 i6 bind_exc_def)
  then have "composite_aqi module_globals c = Inr (Max {i1, i2, i3, i4, i5, i6})"
    by (simp only: Max_six)
  with i1 i2 i3 i4 i5 i6 show ?thesis
    by blast
qed

lemma sample_indices:
  "sub_index 30 pm2_5_breakpoints = Inr 50"
  "sub_index 50 pm10_breakpoints = Inr 50"
  "sub_index (1000 / 1000) carbon_monoxide_breakpoints = Inr 50"
  "sub_index 40 nitrogen_dioxide_breakpoints = Inr 50"
  "sub_index 40 sulphur_dioxide_breakpoints = Inr 50"
  "sub_index 50 ozone_breakpoints = Inr 50"
  "sub_index 1 carbon_monoxide_breakpoints = Inr 50"
  by (simp_all add: sub_index_def table_defs)

lemma six_cases: "i < (6::nat) \<Longrightarrow> i = 0 \<or> i = 1 \<or> i = 2 \<or> i = 3 \<or> i = 4 \<or> i = 5"
  by arith

lemma module_table_length:
  assumes "(k, t) \<in> set (AQI_BREAKPOINTS module_globals)"
  shows "length t = 6"
  using module_tables [OF assms] by (auto simp: table_defs)

lemma pm2_5_endpoints:
  assumes "i < 6"
  shows "sub_index (c_high (pm2_5_breakpoints ! i)) pm2_5_breakpoints = Inr (i_high (pm2_5_breakpoints ! i))
       \<and> sub_index ((c_low (pm2_5_breakpoints ! i) + c_high (pm2_5_breakpoints ! i)) / 2) pm2_5_breakpoints = Inr ((i_low (pm2_5_breakpoints ! i) + i_high (pm2_5_breakpoints ! i)) / 2)
       \<and> sub_index (c_low (pm2_5_breakpoints ! i)) pm2_5_breakpoints = Inr (if i = 0 then i_low (pm2_5_breakpoints ! 0) else i_high (pm2_5_breakpoints ! (i - 1)))
       \<and> (if i = 0 then i_low (pm2_5_breakpoints ! 0) else i_high (pm2_5_breakpoints ! (i - 1))) = (if i = 0 then 0 else i_low (pm2_5_breakpoints ! i) - 1)"
  using six_cases [OF assms]
  by (elim disjE) (simp_all add: sub_index_def pm2_5_breakpoints_def band_defs)

lemma pm10_endpoints:
  assumes "i < 6"
  shows "sub_index (c_high (pm10_breakpoints ! i)) pm10_breakpoints = Inr (i_high (pm10_breakpoints ! i))
       \<and> sub_index ((c_low (pm10_breakpoints ! i) + c_high (pm10_breakpoints ! i)) / 2) pm10_breakpoints = Inr ((i_low (pm10_breakpoints ! i) + i_high (pm10_breakpoints ! i)) / 2)
       \<and> sub_index (c_low (pm10_breakpoints ! i)) pm10_breakpoints = Inr (if i = 0 then i_low (pm10_breakpoints ! 0) else i_high (pm10_breakpoints ! (i - 1)))
       \<and> (if i = 0 then i_low (pm10_breakpoints ! 0) else i_high (pm10_breakpoints ! (i - 1))) = (if i = 0 then 0 else i_low (pm10_breakpoints ! i) - 1)"
  using six_cases [OF assms]
  by (elim disjE) (simp_all add: sub_index_def pm10_breakpoints_def band_defs)

lemma carbon_monoxide_endpoints:
  assumes "i < 6"
  shows "sub_index (c_high (carbon_monoxide_breakpoints ! i)) carbon_monoxide_breakpoints = Inr (i_high (carbon_monoxide_breakpoints ! i))
       \<and> sub_index ((c_low (carbon_monoxide_breakpoints ! i) + c_high (carbon_monoxide_breakpoints ! i)) / 2) carbon_monoxide_breakpoints = Inr ((i_low (carbon_monoxide_breakpoints ! i) + i_high (carbon_monoxide_breakpoints ! i)) / 2)
       \<and> sub_index (c_low (carbon_monoxide_breakpoints ! i)) carbon_monoxide_breakpoints = Inr (if i = 0 then i_low (carbon_monoxide_breakpoints ! 0) else i_high (carbon_monoxide_breakpoints ! (i - 1)))
       \<and> (if i = 0 then i_low (carbon_monoxide_breakpoints ! 0) else i_high (carbon_monoxide_breakpoints ! (i - 1))) = (if i = 0 then 0 else i_low (carbon_monoxide_breakpoints ! i) - 1)"
  using six_cases [OF assms]
  by (elim disjE) (simp_all add: sub_index_def carbon_monoxide_breakpoints_def band_defs)

lemma nitrogen_dioxide_endpoints:
  assumes "i < 6"
  shows "sub_index (c_high (nitrogen_dioxide_breakpoints ! i)) nitrogen_dioxide_breakpoints = Inr (i_high (nitrogen_dioxide_breakpoints ! i))
       \<and> sub_index ((c_low (nitrogen_dioxide_breakpoints ! i) + c_high (nitrogen_dioxide_breakpoints ! i)) / 2) nitrogen_dioxide_breakpoints = Inr ((i_low (nitrogen_dioxide_breakpoints ! i) + i_high (nitrogen_dioxide_breakpoints ! i)) / 2)
       \<and> sub_index (c_low (nitrogen_dioxide_breakpoints ! i)) nitrogen_dioxide_breakpoints = Inr (if i = 0 then i_low (nitrogen_dioxide_breakpoints ! 0) else i_high (nitrogen_dioxide_breakpoints ! (i - 1)))
       \<and> (if i = 0 then i_low (nitrogen_dioxide_breakpoints ! 0) else i_high (nitrogen_dioxide_breakpoints ! (i - 1))) = (if i = 0 then 0 else i_low (nitrogen_dioxide_breakpoints ! i) - 1)"
  using six_cases [OF assms]
  by (elim disjE) (simp_all add: sub_index_def nitrogen_dioxide_breakpoints_def band_defs)

lemma sulphur_dioxide_endpoints:
  assumes "i < 6"
  shows "sub_index (c_high (sulphur_dioxide_breakpoints ! i)) sulphur_dioxide_breakpoints = Inr (i_high (sulphur_dioxide_breakpoints ! i))
       \<and> sub_index ((c_low (sulphur_dioxide_breakpoints ! i) + c_high (sulphur_dioxide_breakpoints ! i)) / 2) sulphur_dioxide_breakpoints = Inr ((i_low (sulphur_dioxide_breakpoints ! i) + i_high (sulphur_dioxide_breakpoints ! i)) / 2)
       \<and> sub_index (c_low (sulphur_dioxide_breakpoints ! i)) sulphur_dioxide_breakpoints = Inr (if i = 0 then i_low (sulphur_dioxide_breakpoints ! 0) else i_high (sulphur_dioxide_breakpoints ! (i - 1)))
       \<and> (if i = 0 then i_low (sulphur_dioxide_breakpoints ! 0) else i_high (sulphur_dioxide_breakpoints ! (i - 1))) = (if i = 0 then 0 else i_low (sulphur_dioxide_breakpoints ! i) - 1)"
  using six_cases [OF assms]
  by (elim disjE) (simp_all add: sub_index_def sulphur_dioxide_breakpoints_def band_defs)

lemma ozone_endpoints:
  assumes "i < 6"
  shows "sub_index (c_high (ozone_breakpoints ! i)) ozone_breakpoints = Inr (i_high (ozone_breakpoints ! i))
       \<and> sub_index ((c_low (ozone_breakpoints ! i) + c_high (ozone_breakpoints ! i)) / 2) ozone_breakpoints = Inr ((i_low (ozone_breakpoints ! i) + i_high (ozone_breakpoints ! i)) / 2)
       \<and> sub_index (c_low (ozone_breakpoints ! i)) ozone_breakpoints = Inr (if i = 0 then i_low (ozone_breakpoints ! 0) else i_high (ozone_breakpoints ! (i - 1)))
       \<and> (if i = 0 then i_low (ozone_breakpoints ! 0) else i_high (ozone_breakpoints ! (i - 1))) = (if i = 0 then 0 else i_low (ozone_breakpoints ! i) - 1)"
  using six_cases [OF assms]
  by (elim disjE) (simp_all add: sub_index_def ozone_breakpoints_def band_defs)

section \<open>The paths with a handler always return\<close>

lemma get_climate_data_returns:
  "\<exists>html. get_climate_data weather_api render lat lon location_name date_str = Inr html"
  by (simp add: get_climate_data_def split: sum.split)

lemma create_india_map_returns:
  "\<exists>html. create_india_map g folium lat lon zoom tiles_label = Inr html"
  by (simp add: create_india_map_def Let_def split: sum.split prod.split)

section \<open>The coordinate validator\<close>

text \<open>
  C7. For all reals \<open>lat\<close> and \<open>lon\<close>, \<open>is_within_india\<close> is true exactly when
  6 \<le> lat \<le> 36 and 68 \<le> lon \<le> 98, the four edges included: (21, 79), (6, 68)
  and (36, 98) are inside, (5.9, 79) and (37, 79) are outside.
\<close>

theorem is_within_india_iff:
  "(is_within_india lat lon \<longleftrightarrow> 6 \<le> lat \<and> lat \<le> 36 \<and> 68 \<le> lon \<and> lon \<le> 98)
   \<and> is_within_india 21.0 79.0
   \<and> is_within_india 6.0 68.0
   \<and> is_within_india 36.0 98.0
   \<and> \<not> is_within_india 5.9 79.0
   \<and> \<not> is_within_india 37.0 79.0"
  by (simp add: is_within_india_def)

section \<open>Interpolation inside a band\<close>

text \<open>
  C1. For every breakpoint table and every concentration \<open>C\<close> inside some band,
  \<open>sub_index\<close> returns \<open>((I_high - I_low) / (C_high - C_low)) * (C - C_low) + I_low\<close>
  for the first band in table order that contains \<open>C\<close>. A band that contains a
  concentration has \<open>C_low \<le> C_high\<close>; the quotient of the claim is defined for
  \<open>C_low < C_high\<close>, as in every band of an ascending table (for the one-point band
  \<open>C_low = C_high\<close> see \<open>sub_index_point_band\<close>). In particular a concentration at
  the boundary \<open>B\<close> shared by two consecutive bands \<open>(A, B, I1, I2)\<close> and
  \<open>(B, D, I3, I4)\<close> is resolved by the earlier band, and the result is its \<open>I2\<close>.
\<close>

theorem sub_index_first_band:
  "(find (in_band C) bps = Some (Cl, Ch, Il, Ih) \<and> Cl < Ch \<longrightarrow>
      sub_index C bps = Inr (((Ih - Il) / (Ch - Cl)) * (C - Cl) + Il))
   \<and> ((\<forall>b\<in>set pre. \<not> in_band B b) \<and> A < B \<longrightarrow>
      sub_index B (pre @ (A, B, I1, I2) # (B, D, I3, I4) # post) = Inr I2)"
proof (intro conjI impI)
  assume "find (in_band C) bps = Some (Cl, Ch, Il, Ih) \<and> Cl < Ch"
  then show "sub_index C bps = Inr (((Ih - Il) / (Ch - Cl)) * (C - Cl) + Il)"
    by (simp add: sub_index_at_band)
next
  assume h: "(\<forall>b\<in>set pre. \<not> in_band B b) \<and> A < B"
  let ?t = "pre @ (A, B, I1, I2) # (B, D, I3, I4) # post"
  from h have "find (in_band B) ?t = Some (A, B, I1, I2)"
    by (simp add: find_append_skip in_band_def c_low_def c_high_def)
  with h have "sub_index B ?t = Inr (((I2 - I1) / (B - A)) * (B - A) + I1)"
    by (simp add: sub_index_at_band)
  with h show "sub_index B ?t = Inr I2"
    by simp
qed

theorem sub_index_first_band_witness:
  "find (in_band 45) pm2_5_breakpoints = Some (30, 60, 51, 100)
   \<and> sub_index 45 pm2_5_breakpoints = Inr (((100 - 51) / (60 - 30)) * (45 - 30) + 51)
   \<and> sub_index 60 ([(0, 30, 0, 50)] @ (30, 60, 51, 100) # (60, 90, 101, 200) # []) = Inr 100"
proof -
  have f: "find (in_band 45) pm2_5_breakpoints = Some (30, 60, 51, 100)"
    by (simp add: pm2_5_breakpoints_def in_band_def c_low_def c_high_def)
  have p: "(\<forall>b\<in>set [(0, 30, 0, 50)]. \<not> in_band 60 b) \<and> (30::real) < 60"
    by (simp add: in_band_def c_low_def c_high_def)
  from sub_index_first_band [of 45 pm2_5_breakpoints 30 60 51 100 "[(0, 30, 0, 50)]" 60 30 51 100 90 101 200 "[]"] f p
  show ?thesis by simp
qed

section \<open>Saturation outside the table\<close>

text \<open>
  C2. \<open>sub_index\<close> saturates instead of failing. For a table with at least one
  band and a concentration that no band contains, the result is the first band's
  \<open>I_low\<close> when the concentration is below the first band's lower bound and the last
  band's \<open>I_high\<close> otherwise, never an exception. When the first band has the least
  lower bound, every concentration below it gets the first band's \<open>I_low\<close>; when the
  last band has the greatest upper bound, every concentration above it gets the last
  band's \<open>I_high\<close>. PM2.5 at -5 gives 0 and at 1000 gives 500.
\<close>

theorem sub_index_saturates:
  "(bps \<noteq> [] \<and> (\<forall>b\<in>set bps. \<not> in_band C b) \<longrightarrow>
      sub_index C bps = Inr (if C < c_low (hd bps) then i_low (hd bps) else i_high (last bps)))
   \<and> (bps \<noteq> [] \<and> (\<forall>b\<in>set bps. c_low (hd bps) \<le> c_low b) \<and> C < c_low (hd bps) \<longrightarrow>
      sub_index C bps = Inr (i_low (hd bps)))
   \<and> (bps \<noteq> [] \<and> (\<forall>b\<in>set bps. c_high b \<le> c_high (last bps))
        \<and> c_low (hd bps) \<le> c_high (last bps) \<and> c_high (last bps) < C \<longrightarrow>
      sub_index C bps = Inr (i_high (last bps)))
   \<and> sub_index (- 5) pm2_5_breakpoints = Inr 0
   \<and> sub_index 1000 pm2_5_breakpoints = Inr 500"
proof (intro conjI impI)
  assume "bps \<noteq> [] \<and> (\<forall>b\<in>set bps. \<not> in_band C b)"
  then show "sub_index C bps = Inr (if C < c_low (hd bps) then i_low (hd bps) else i_high (last bps))"
    by (simp add: sub_index_no_band)
next
  assume h: "bps \<noteq> [] \<and> (\<forall>b\<in>set bps. c_low (hd bps) \<le> c_low b) \<and> C < c_low (hd bps)"
  then have "\<forall>b\<in>set bps. \<not> in_band C b"
    by (fastforce simp: in_band_def)
  with h show "sub_index C bps = Inr (i_low (hd bps))"
    by (simp add: sub_index_no_band)
next
  assume h: "bps \<noteq> [] \<and> (\<forall>b\<in>set bps. c_high b \<le> c_high (last bps))
        \<and> c_low (hd bps) \<le> c_high (last bps) \<and> c_high (last bps) < C"
  then have "\<forall>b\<in>set bps. \<not> in_band C b"
    by (fastforce simp: in_band_def)
  moreover from h have "\<not> C < c_low (hd bps)"
    by simp
  ultimately show "sub_index C bps = Inr (i_high (last bps))"
    using h by (simp add: sub_index_no_band)
next
  show "sub_index (- 5) pm2_5_breakpoints = Inr 0"
    by (simp add: sub_index_def pm2_5_breakpoints_def c_low_def i_low_def)
next
  show "sub_index 1000 pm2_5_breakpoints = Inr 500"
    by (simp add: sub_index_def pm2_5_breakpoints_def c_low_def i_high_def)
qed

theorem sub_index_saturates_witness:
  "sub_index 45 [(0, 30, 0, 50), (60, 90, 101, 200)] = Inr 200
   \<and> sub_index (- 1) [(0, 30, 0, 50), (60, 90, 101, 200)] = Inr 0
   \<and> sub_index 95 [(0, 30, 0, 50), (60, 90, 101, 200)] = Inr 200"
proof -
  let ?t = "[(0, 30, 0, 50), (60, 90, 101, 200)] :: band list"
  have a: "?t \<noteq> [] \<and> (\<forall>b\<in>set ?t. \<not> in_band 45 b)"
    by (simp add: in_band_def c_low_def c_high_def)
  have b: "?t \<noteq> [] \<and> (\<forall>b\<in>set ?t. c_low (hd ?t) \<le> c_low b) \<and> - 1 < c_low (hd ?t)"
    by (simp add: c_low_def)
  have c: "?t \<noteq> [] \<and> (\<forall>b\<in>set ?t. c_high b \<le> c_high (last ?t))
        \<and> c_low (hd ?t) \<le> c_high (last ?t) \<and> c_high (last ?t) < 95"
    by (simp add: c_low_def c_high_def)
  from sub_index_saturates [of ?t 45] a have "sub_index 45 ?t = Inr 200"
    by (simp add: c_low_def i_low_def i_high_def)
  moreover from sub_index_saturates [of ?t "- 1"] b have "sub_index (- 1) ?t = Inr 0"
    by (simp add: c_low_def i_low_def i_high_def)
  moreover from sub_index_saturates [of ?t 95] c have "sub_index 95 ?t = Inr 200"
    by (simp add: c_low_def c_high_def i_low_def i_high_def)
  ultimately show ?thesis by simp
qed

section \<open>Colour and label of an index\<close>

text \<open>
  C6. \<open>aqi_color\<close> scans the bands in table order and returns the
  \<open>(color, label)\<close> of the first band whose closed range contains the value, the
  sentinel when there is none; the module's bands are the six ranges in ascending
  order. The values 0, 500 and 75 give Good, Severe and Satisfactory with their
  colours.
\<close>

theorem aqi_color_first_band:
  "aqi_color g v =
     (case find (\<lambda>(low, high, label, color). low \<le> v \<and> v \<le> high) (AQI_BANDS g) of
        Some (low, high, label, color) \<Rightarrow> (color, label)
      | None \<Rightarrow> (''#000000'', ''Unknown''))
   \<and> map (\<lambda>(low, high, label, color). (low, high)) (AQI_BANDS module_globals) =
        [(0, 50), (51, 100), (101, 200), (201, 300), (301, 400), (401, 500)]
   \<and> aqi_color module_globals 0 = (''#009966'', ''Good'')
   \<and> aqi_color module_globals 500 = (''#7e0023'', ''Severe'')
   \<and> aqi_color module_globals 75 = (''#ffde33'', ''Satisfactory'')"
  by (simp add: aqi_color_def aqi_color_loop_find AQI_BANDS_module)

text \<open>
  C5 as stated fails: the bands are ascending and do not overlap, but they are not
  contiguous over the reals. 50.5 lies in [0, 500] and in no band, so \<open>aqi_color\<close>
  returns the sentinel for it.
\<close>

theorem aqi_color_gap_counterexample:
  "(0::real) \<le> 50.5 \<and> (50.5::real) \<le> 500
   \<and> aqi_color module_globals 50.5 = (''#000000'', ''Unknown'')"
  by (simp add: aqi_color_module_cases)

text \<open>
  C5, amended. \<open>aqi_color\<close> returns the sentinel exactly when the value is below 0,
  above 500 or strictly between two consecutive bands, that is in one of the open
  gaps (50, 51), (100, 101), (200, 201), (300, 301), (400, 401). For every whole
  number from 0 to 500 a band matches and the result is not the sentinel.
\<close>

theorem aqi_color_sentinel_iff:
  "(aqi_color module_globals v = (''#000000'', ''Unknown'') \<longleftrightarrow>
      v < 0 \<or> 500 < v \<or> 50 < v \<and> v < 51 \<or> 100 < v \<and> v < 101 \<or> 200 < v \<and> v < 201
      \<or> 300 < v \<and> v < 301 \<or> 400 < v \<and> v < 401)
   \<and> (0 \<le> n \<and> n \<le> 500 \<longrightarrow>
        aqi_color module_globals (real_of_int n) \<noteq> (''#000000'', ''Unknown''))
   \<and> map (\<lambda>(low, high, label, color). (low, high)) (AQI_BANDS module_globals) =
        [(0, 50), (51, 100), (101, 200), (201, 300), (301, 400), (401, 500)]"
proof (intro conjI impI)
  show "map (\<lambda>(low, high, label, color). (low, high)) (AQI_BANDS module_globals) =
        [(0, 50), (51, 100), (101, 200), (201, 300), (301, 400), (401, 500)]"
    by (simp add: AQI_BANDS_module)
next
  show "aqi_color module_globals v = (''#000000'', ''Unknown'') \<longleftrightarrow>
      v < 0 \<or> 500 < v \<or> 50 < v \<and> v < 51 \<or> 100 < v \<and> v < 101 \<or> 200 < v \<and> v < 201
      \<or> 300 < v \<and> v < 301 \<or> 400 < v \<and> v < 401"
    unfolding aqi_color_sentinel by linarith
next
  assume "0 \<le> n \<and> n \<le> 500"
  then have "0 \<le> n \<and> n \<le> 50 \<or> 51 \<le> n \<and> n \<le> 100 \<or> 101 \<le> n \<and> n \<le> 200
        \<or> 201 \<le> n \<and> n \<le> 300 \<or> 301 \<le> n \<and> n \<le> 400 \<or> 401 \<le> n \<and> n \<le> 500"
    by linarith
  then have "0 \<le> real_of_int n \<and> real_of_int n \<le> 50 \<or> 51 \<le> real_of_int n \<and> real_of_int n \<le> 100
        \<or> 101 \<le> real_of_int n \<and> real_of_int n \<le> 200 \<or> 201 \<le> real_of_int n \<and> real_of_int n \<le> 300
        \<or> 301 \<le> real_of_int n \<and> real_of_int n \<le> 400 \<or> 401 \<le> real_of_int n \<and> real_of_int n \<le> 500"
    by linarith
  then show "aqi_color module_globals (real_of_int n) \<noteq> (''#000000'', ''Unknown'')"
    unfolding aqi_color_sentinel by blast
qed

theorem aqi_color_sentinel_iff_witness:
  "(0::int) \<le> 51 \<and> (51::int) \<le> 500
   \<and> aqi_color module_globals (real_of_int 51) \<noteq> (''#000000'', ''Unknown'')"
  using aqi_color_sentinel_iff [of 0 51] by simp

section \<open>Sub-indices stay inside the AQI bands\<close>

text \<open>
  C10. For each of the six breakpoint tables of the module and every real
  concentration, negative and arbitrarily large ones included, \<open>sub_index\<close> returns a
  value in [0,50] \<union> [51,100] \<union> [101,200] \<union> [201,300] \<union> [301,400] \<union> [401,500],
  so within [0, 500], and \<open>aqi_color\<close> of that value is not the sentinel; the same
  holds for the maximum of any finite non-empty set of such sub-indices.
\<close>

theorem sub_index_within_index_bands:
  "((k, t) \<in> set (AQI_BREAKPOINTS module_globals) \<longrightarrow>
      (\<exists>v. sub_index C t = Inr v
         \<and> (0 \<le> v \<and> v \<le> 50 \<or> 51 \<le> v \<and> v \<le> 100 \<or> 101 \<le> v \<and> v \<le> 200
            \<or> 201 \<le> v \<and> v \<le> 300 \<or> 301 \<le> v \<and> v \<le> 400 \<or> 401 \<le> v \<and> v \<le> 500)
         \<and> 0 \<le> v \<and> v \<le> 500
         \<and> aqi_color module_globals v \<noteq> (''#000000'', ''Unknown'')))
   \<and> (finite S \<and> S \<noteq> {}
        \<and> (\<forall>v\<in>S. \<exists>k t C. (k, t) \<in> set (AQI_BREAKPOINTS module_globals) \<and> sub_index C t = Inr v) \<longrightarrow>
      aqi_color module_globals (Max S) \<noteq> (''#000000'', ''Unknown''))"
proof (intro conjI impI)
  assume kt: "(k, t) \<in> set (AQI_BREAKPOINTS module_globals)"
  from module_sub_index_range [OF kt, of C]
  obtain v where v: "sub_index C t = Inr v"
    and r: "0 \<le> v \<and> v \<le> 50 \<or> 51 \<le> v \<and> v \<le> 100 \<or> 101 \<le> v \<and> v \<le> 200
            \<or> 201 \<le> v \<and> v \<le> 300 \<or> 301 \<le> v \<and> v \<le> 400 \<or> 401 \<le> v \<and> v \<le> 500"
    by blast
  from r have "0 \<le> v \<and> v \<le> 500"
    by linarith
  moreover from r have "aqi_color module_globals v \<noteq> (''#000000'', ''Unknown'')"
    by (simp only: aqi_color_sentinel not_not)
  ultimately show "\<exists>v. sub_index C t = Inr v
         \<and> (0 \<le> v \<and> v \<le> 50 \<or> 51 \<le> v \<and> v \<le> 100 \<or> 101 \<le> v \<and> v \<le> 200
            \<or> 201 \<le> v \<and> v \<le> 300 \<or> 301 \<le> v \<and> v \<le> 400 \<or> 401 \<le> v \<and> v \<le> 500)
         \<and> 0 \<le> v \<and> v \<le> 500
         \<and> aqi_color module_globals v \<noteq> (''#000000'', ''Unknown'')"
    using v r by blast
next
  assume h: "finite S \<and> S \<noteq> {}
        \<and> (\<forall>v\<in>S. \<exists>k t C. (k, t) \<in> set (AQI_BREAKPOINTS module_globals) \<and> sub_index C t = Inr v)"
  then have "Max S \<in> S"
    by (simp add: Max_in)
  with h obtain k t C where kt: "(k, t) \<in> set (AQI_BREAKPOINTS module_globals)"
    and m: "sub_index C t = Inr (Max S)"
    by blast
  from module_sub_index_range [OF kt, of C] m
  have "0 \<le> Max S \<and> Max S \<le> 50 \<or> 51 \<le> Max S \<and> Max S \<le> 100 \<or> 101 \<le> Max S \<and> Max S \<le> 200
            \<or> 201 \<le> Max S \<and> Max S \<le> 300 \<or> 301 \<le> Max S \<and> Max S \<le> 400 \<or> 401 \<le> Max S \<and> Max S \<le> 500"
    by simp
  then show "aqi_color module_globals (Max S) \<noteq> (''#000000'', ''Unknown'')"
    by (simp only: aqi_color_sentinel not_not)
qed

theorem sub_index_within_index_bands_witness:
  "(''pm2_5'', pm2_5_breakpoints) \<in> set (AQI_BREAKPOINTS module_globals)
   \<and> sub_index 45 pm2_5_breakpoints = Inr (151 / 2)
   \<and> aqi_color module_globals (151 / 2) \<noteq> (''#000000'', ''Unknown'')
   \<and> finite {151 / 2, 500 :: real} \<and> {151 / 2, 500 :: real} \<noteq> {}
   \<and> aqi_color module_globals (Max {151 / 2, 500}) \<noteq> (''#000000'', ''Unknown'')"
proof -
  have a: "(''pm2_5'', pm2_5_breakpoints) \<in> set (AQI_BREAKPOINTS module_globals)"
    by (simp add: module_globals_def)
  have b: "(''ozone'', ozone_breakpoints) \<in> set (AQI_BREAKPOINTS module_globals)"
    by (simp add: module_globals_def)
  have c: "finite {151 / 2, 500 :: real} \<and> {151 / 2, 500 :: real} \<noteq> {}
     \<and> (\<forall>v\<in>{151 / 2, 500 :: real}. \<exists>k t C. (k, t) \<in> set (AQI_BREAKPOINTS module_globals) \<and> sub_index C t = Inr v)"
    using a b sub_index_pm2_5_45 sub_index_ozone_2000 by blast
  note inst = sub_index_within_index_bands [of "''pm2_5''" pm2_5_breakpoints 45 "{151 / 2, 500}"]
  from inst a have "\<exists>v. sub_index 45 pm2_5_breakpoints = Inr v
      \<and> aqi_color module_globals v \<noteq> (''#000000'', ''Unknown'')"
    by blast
  then have d: "aqi_color module_globals (151 / 2) \<noteq> (''#000000'', ''Unknown'')"
    by (simp only: sub_index_pm2_5_45 sum.inject) blast
  from inst c have e: "aqi_color module_globals (Max {151 / 2, 500}) \<noteq> (''#000000'', ''Unknown'')"
    by blast
  from a d e c show ?thesis
    by (simp only: sub_index_pm2_5_45 simp_thms)
qed

section \<open>The composite AQI\<close>

text \<open>
  C3. The composite AQI divides the raw CO reading by 1000, computes \<open>sub_index\<close>
  for PM2.5, PM10, CO, NO2, SO2 and O3, each against its own table, and returns the
  maximum of the six sub-indices. For PM2.5 = 30, PM10 = 50, raw CO = 1000, NO2 = 40,
  SO2 = 40 and O3 = 50 every sub-index is 50 and the composite is 50.
\<close>

theorem composite_aqi_is_max:
  "(\<exists>i1 i2 i3 i4 i5 i6.
      sub_index (dict_get c ''pm2_5'' 0) pm2_5_breakpoints = Inr i1
    \<and> sub_index (dict_get c ''pm10'' 0) pm10_breakpoints = Inr i2
    \<and> sub_index (dict_get c ''carbon_monoxide'' 0 / 1000) carbon_monoxide_breakpoints = Inr i3
    \<and> sub_index (dict_get c ''nitrogen_dioxide'' 0) nitrogen_dioxide_breakpoints = Inr i4
    \<and> sub_index (dict_get c ''sulphur_dioxide'' 0) sulphur_dioxide_breakpoints = Inr i5
    \<and> sub_index (dict_get c ''ozone'' 0) ozone_breakpoints = Inr i6
    \<and> composite_aqi module_globals c = Inr (Max {i1, i2, i3, i4, i5, i6}))
   \<and> sub_index 30 pm2_5_breakpoints = Inr 50
   \<and> sub_index 50 pm10_breakpoints = Inr 50
   \<and> sub_index (1000 / 1000) carbon_monoxide_breakpoints = Inr 50
   \<and> sub_index 40 nitrogen_dioxide_breakpoints = Inr 50
   \<and> sub_index 40 sulphur_dioxide_breakpoints = Inr 50
   \<and> sub_index 50 ozone_breakpoints = Inr 50
   \<and> composite_aqi module_globals
        [''pm2_5'' \<mapsto> 30, ''pm10'' \<mapsto> 50, ''carbon_monoxide'' \<mapsto> 1000,
         ''nitrogen_dioxide'' \<mapsto> 40, ''sulphur_dioxide'' \<mapsto> 40, ''ozone'' \<mapsto> 50] = Inr 50"
proof -
  let ?c = "[''pm2_5'' \<mapsto> 30, ''pm10'' \<mapsto> 50, ''carbon_monoxide'' \<mapsto> 1000,
         ''nitrogen_dioxide'' \<mapsto> 40, ''sulphur_dioxide'' \<mapsto> 40, ''ozone'' \<mapsto> 50] :: string \<rightharpoonup> real"
  have g: "dict_get ?c ''pm2_5'' 0 = 30" "dict_get ?c ''pm10'' 0 = 50"
    "dict_get ?c ''carbon_monoxide'' 0 = 1000" "dict_get ?c ''nitrogen_dioxide'' 0 = 40"
    "dict_get ?c ''sulphur_dioxide'' 0 = 40" "dict_get ?c ''ozone'' 0 = 50"
    by (simp_all add: dict_get_def)
  have "composite_aqi module_globals ?c = Inr 50"
    unfolding composite_aqi_def Let_def g module_pollutant_index
    by (simp add: sample_indices bind_exc_def)
  with composite_aqi_module [of c] sample_indices show ?thesis
    by (simp only: simp_thms)
qed

section \<open>Band bounds and midpoints\<close>

text \<open>
  C4 as stated fails at the lower bound of every band but the first: the lower bound
  is the upper bound of the band before, which the loop meets first. PM2.5 at 30,
  the lower bound of the band (30, 60, 51, 100), gives 50 and not 51.
\<close>

theorem sub_index_lower_bound_counterexample:
  "(''pm2_5'', pm2_5_breakpoints) \<in> set (AQI_BREAKPOINTS module_globals)
   \<and> (30, 60, 51, 100) \<in> set pm2_5_breakpoints
   \<and> sub_index 30 pm2_5_breakpoints = Inr 50
   \<and> sub_index 30 pm2_5_breakpoints \<noteq> Inr 51"
  by (simp add: module_globals_def sub_index_def pm2_5_breakpoints_def)

text \<open>
  C4, amended. For each of the six tables and each band of it, \<open>sub_index\<close> at the
  band's upper bound gives its \<open>I_high\<close>, at the midpoint of its concentrations the mean
  of \<open>I_low\<close> and \<open>I_high\<close>, and at its lower bound the band's \<open>I_low\<close> for the first band
  (which is 0) and the \<open>I_high\<close> of the band before for every later band (which is the
  band's \<open>I_low\<close> less 1).
\<close>

theorem sub_index_band_endpoints:
  "(k, t) \<in> set (AQI_BREAKPOINTS module_globals) \<and> i < length t \<longrightarrow>
     sub_index (c_high (t ! i)) t = Inr (i_high (t ! i))
     \<and> sub_index ((c_low (t ! i) + c_high (t ! i)) / 2) t = Inr ((i_low (t ! i) + i_high (t ! i)) / 2)
     \<and> sub_index (c_low (t ! i)) t = Inr (if i = 0 then i_low (t ! 0) else i_high (t ! (i - 1)))
     \<and> (if i = 0 then i_low (t ! 0) else i_high (t ! (i - 1))) = (if i = 0 then 0 else i_low (t ! i) - 1)"
proof
  assume h: "(k, t) \<in> set (AQI_BREAKPOINTS module_globals) \<and> i < length t"
  with module_table_length [of k t] have i: "i < 6"
    by simp
  from h module_tables [of k t]
  have "t = pm2_5_breakpoints \<or> t = pm10_breakpoints \<or> t = carbon_monoxide_breakpoints
       \<or> t = nitrogen_dioxide_breakpoints \<or> t = sulphur_dioxide_breakpoints \<or> t = ozone_breakpoints"
    by blast
  then show "sub_index (c_high (t ! i)) t = Inr (i_high (t ! i))
     \<and> sub_index ((c_low (t ! i) + c_high (t ! i)) / 2) t = Inr ((i_low (t ! i) + i_high (t ! i)) / 2)
     \<and> sub_index (c_low (t ! i)) t = Inr (if i = 0 then i_low (t ! 0) else i_high (t ! (i - 1)))
     \<and> (if i = 0 then i_low (t ! 0) else i_high (t ! (i - 1))) = (if i = 0 then 0 else i_low (t ! i) - 1)"
    using pm2_5_endpoints [OF i] pm10_endpoints [OF i] carbon_monoxide_endpoints [OF i]
      nitrogen_dioxide_endpoints [OF i] sulphur_dioxide_endpoints [OF i] ozone_endpoints [OF i]
    by (elim disjE) blast+
qed

theorem sub_index_band_endpoints_witness:
  "(''pm2_5'', pm2_5_breakpoints) \<in> set (AQI_BREAKPOINTS module_globals)
   \<and> 1 < length pm2_5_breakpoints
   \<and> pm2_5_breakpoints ! 1 = (30, 60, 51, 100)
   \<and> sub_index 60 pm2_5_breakpoints = Inr 100
   \<and> sub_index 45 pm2_5_breakpoints = Inr (151 / 2)
   \<and> sub_index 30 pm2_5_breakpoints = Inr 50"
proof -
  have a: "(''pm2_5'', pm2_5_breakpoints) \<in> set (AQI_BREAKPOINTS module_globals) \<and> 1 < length pm2_5_breakpoints"
    by (simp add: module_globals_def pm2_5_breakpoints_def)
  have b: "pm2_5_breakpoints ! 1 = (30, 60, 51, 100)" "pm2_5_breakpoints ! 0 = (0, 30, 0, 50)"
    "pm2_5_breakpoints ! Suc 0 = (30, 60, 51, 100)"
    by (simp_all add: pm2_5_breakpoints_def)
  from sub_index_band_endpoints [of "''pm2_5''" pm2_5_breakpoints 1] a
  have "sub_index (c_high (pm2_5_breakpoints ! 1)) pm2_5_breakpoints = Inr (i_high (pm2_5_breakpoints ! 1))
     \<and> sub_index ((c_low (pm2_5_breakpoints ! 1) + c_high (pm2_5_breakpoints ! 1)) / 2) pm2_5_breakpoints
         = Inr ((i_low (pm2_5_breakpoints ! 1) + i_high (pm2_5_breakpoints ! 1)) / 2)
     \<and> sub_index (c_low (pm2_5_breakpoints ! 1)) pm2_5_breakpoints = Inr (i_high (pm2_5_breakpoints ! 0))"
    by simp
  then have "sub_index 60 pm2_5_breakpoints = Inr 100
     \<and> sub_index 45 pm2_5_breakpoints = Inr (151 / 2)
     \<and> sub_index 30 pm2_5_breakpoints = Inr 50"
    by (simp add: b band_defs)
  with a b show ?thesis
    by simp
qed

section \<open>Where a failed fetch is handled\<close>

text \<open>
  C8. When the upstream call raises, \<open>get_climate_data\<close> and \<open>create_india_map\<close> catch
  the exception and return a normal result, the inline red-text panel with the
  exception's text; whatever happens inside their \<open>try\<close>, they return. In
  \<open>get_air_quality\<close> the exception of \<open>requests.get\<close> or of \<open>raise_for_status\<close>, and in
  \<open>get_satellite_radiation\<close> the exception of the client's fetch, propagates to the
  caller.
\<close>

theorem fetch_failure_handling:
  "(weather_api (lat, lon, date_str) = Inl e \<longrightarrow>
      get_climate_data weather_api render lat lon location_name date_str = Inr (climate_error_panel e))
   \<and> (\<exists>html. get_climate_data weather_api render lat lon location_name date_str = Inr html)
   \<and> ((\<forall>req. folium req = Inl e) \<longrightarrow>
      create_india_map g folium map_lat map_lon zoom tiles_label = Inr (map_error_panel e))
   \<and> (\<exists>html. create_india_map g folium map_lat map_lon zoom tiles_label = Inr html)
   \<and> (requests_get (lat, lon) = Inl e \<longrightarrow>
      get_air_quality g requests_get render_aqi lat lon location_name date_str = Inl e)
   \<and> (requests_get (lat, lon) = Inr resp \<and> status_error resp = Some e \<longrightarrow>
      get_air_quality g requests_get render_aqi lat lon location_name date_str = Inl e)
   \<and> (strptime date_str = Inr date \<and> satellite_api (lat, lon, date) = Inl e \<longrightarrow>
      get_satellite_radiation strptime satellite_api render_sat lat lon location_name date_str = Inl e)
   \<and> climate_error_panel (External ''timed out'') =
        ''<div style='color:red;padding:.5em;'>Climate data unavailable: timed out</div>''
   \<and> map_error_panel (External ''timed out'') =
        ''<div style='color:red;padding:1em;'>Error generating map: timed out</div>''"
proof (intro conjI impI)
  assume "weather_api (lat, lon, date_str) = Inl e"
  then show "get_climate_data weather_api render lat lon location_name date_str = Inr (climate_error_panel e)"
    by (simp add: get_climate_data_def bind_exc_def)
next
  show "\<exists>html. get_climate_data weather_api render lat lon location_name date_str = Inr html"
    by (rule get_climate_data_returns)
next
  assume "\<forall>req. folium req = Inl e"
  then show "create_india_map g folium map_lat map_lon zoom tiles_label = Inr (map_error_panel e)"
    by (simp add: create_india_map_def Let_def split: prod.split)
next
  show "\<exists>html. create_india_map g folium map_lat map_lon zoom tiles_label = Inr html"
    by (rule create_india_map_returns)
next
  assume "requests_get (lat, lon) = Inl e"
  then show "get_air_quality g requests_get render_aqi lat lon location_name date_str = Inl e"
    by (simp add: get_air_quality_def bind_exc_def)
next
  assume "requests_get (lat, lon) = Inr resp \<and> status_error resp = Some e"
  then show "get_air_quality g requests_get render_aqi lat lon location_name date_str = Inl e"
    by (simp add: get_air_quality_def bind_exc_def)
next
  assume "strptime date_str = Inr date \<and> satellite_api (lat, lon, date) = Inl e"
  then show "get_satellite_radiation strptime satellite_api render_sat lat lon location_name date_str = Inl e"
    by (simp add: get_satellite_radiation_def bind_exc_def)
next
  show "climate_error_panel (External ''timed out'') =
        ''<div style='color:red;padding:.5em;'>Climate data unavailable: timed out</div>''"
    by (simp add: climate_error_panel_def)
next
  show "map_error_panel (External ''timed out'') =
        ''<div style='color:red;padding:1em;'>Error generating map: timed out</div>''"
    by (simp add: map_error_panel_def)
qed

theorem fetch_failure_handling_witness:
  "get_climate_data (\<lambda>q. Inl (External ''timed out'') :: py_exception + unit list)
       (\<lambda>resp name d. Inr []) 21 79 ''Nagpur'' ''2025-01-01''
     = Inr (climate_error_panel (External ''timed out''))
   \<and> create_india_map module_globals (\<lambda>req. Inl (External ''timed out'')) (Some 21) (Some 79) 5 ''OpenStreetMap''
     = Inr (map_error_panel (External ''timed out''))
   \<and> get_air_quality module_globals (\<lambda>q. Inl (External ''timed out''))
       (\<lambda>c aqi cl name d. []) 21 79 ''Nagpur'' ''2025-01-01''
     = Inl (External ''timed out'')
   \<and> get_air_quality module_globals
       (\<lambda>q. Inr \<lparr> status_error = Some (External ''503 Server Error''), json = Inr Map.empty \<rparr>)
       (\<lambda>c aqi cl name d. []) 21 79 ''Nagpur'' ''2025-01-01''
     = Inl (External ''503 Server Error'')
   \<and> get_satellite_radiation (\<lambda>d. Inr ()) (\<lambda>q. Inl (External ''timed out'') :: py_exception + unit list)
       (\<lambda>resp name d. Inr []) 21 79 ''Nagpur'' ''2025-01-01''
     = Inl (External ''timed out'')"
proof -
  let ?e = "External ''timed out''"
  let ?resp = "\<lparr> status_error = Some (External ''503 Server Error''), json = Inr Map.empty \<rparr>"
  note inst = fetch_failure_handling
    [where weather_api = "\<lambda>q. Inl ?e :: py_exception + unit list" and render = "\<lambda>resp name d. Inr []"
       and lat = 21 and lon = 79 and location_name = "''Nagpur''" and date_str = "''2025-01-01''"
       and g = module_globals and map_lat = "Some 21" and map_lon = "Some 79" and zoom = 5
       and tiles_label = "''OpenStreetMap''" and render_aqi = "\<lambda>c aqi cl name d. []"
       and strptime = "\<lambda>d. Inr ()" and date = "()"
       and satellite_api = "\<lambda>q. Inl ?e :: py_exception + unit list"
       and render_sat = "\<lambda>resp name d. Inr []"]
  have a: "get_climate_data (\<lambda>q. Inl ?e :: py_exception + unit list)
       (\<lambda>resp name d. Inr []) 21 79 ''Nagpur'' ''2025-01-01'' = Inr (climate_error_panel ?e)"
    using inst [where e = ?e] by simp
  have b: "create_india_map module_globals (\<lambda>req. Inl ?e) (Some 21) (Some 79) 5 ''OpenStreetMap''
     = Inr (map_error_panel ?e)"
    using inst [where folium = "\<lambda>req. Inl ?e" and e = ?e] by simp
  have c: "get_air_quality module_globals (\<lambda>q. Inl ?e)
       (\<lambda>c aqi cl name d. []) 21 79 ''Nagpur'' ''2025-01-01'' = Inl ?e"
    using inst [where requests_get = "\<lambda>q. Inl ?e" and e = ?e] by simp
  have d: "get_air_quality module_globals (\<lambda>q. Inr ?resp)
       (\<lambda>c aqi cl name d. []) 21 79 ''Nagpur'' ''2025-01-01'' = Inl (External ''503 Server Error'')"
    using inst [where requests_get = "\<lambda>q. Inr ?resp" and resp = ?resp
        and e = "External ''503 Server Error''"] by simp
  have e: "get_satellite_radiation (\<lambda>d. Inr ()) (\<lambda>q. Inl ?e :: py_exception + unit list)
       (\<lambda>resp name d. Inr []) 21 79 ''Nagpur'' ''2025-01-01'' = Inl ?e"
    using inst [where e = ?e] by simp
  from a b c d e show ?thesis
    by (simp only: simp_thms)
qed

end
